theory Spec2Isabelle
  imports Complex_Main "HOL-Library.Log_Nat"
begin

section \<open>JavaScript numbers\<close>

text \<open>
  The client computes with JavaScript numbers. A number is embedded as a rational, or as
  one of the three special values. The sign of zero is not represented. The stock
  arithmetic of the purchase list (one division, one subtraction) is taken exactly; the
  price arithmetic of the item form, which ends in \<^verbatim>\<open>Math.round\<close>, rounds every
  operation to double precision as the machine does (see the section on double
  precision below).
\<close>

datatype jsnum = Finite rat | PosInfinity | NegInfinity | NaN

text \<open>
  \<^verbatim>\<open>a / b\<close> for a finite dividend and a divisor read from a JSON record. A field that
  is absent reads as \<^verbatim>\<open>undefined\<close>, which converts to NaN; a zero divisor gives an
  infinity of the dividend's sign, or NaN for \<^verbatim>\<open>0 / 0\<close>.
\<close>

definition js_div :: "rat \<Rightarrow> rat option \<Rightarrow> jsnum" where
  "js_div a b =
     (case b of
        None \<Rightarrow> NaN
      | Some r \<Rightarrow>
          (if r = 0 then (if a = 0 then NaN else if 0 < a then PosInfinity else NegInfinity)
           else Finite (a / r)))"

text \<open>\<^verbatim>\<open>a - b\<close> for a finite minuend.\<close>

fun js_sub :: "rat \<Rightarrow> jsnum \<Rightarrow> jsnum" where
  "js_sub a (Finite b) = Finite (a - b)"
| "js_sub a PosInfinity = NegInfinity"
| "js_sub a NegInfinity = PosInfinity"
| "js_sub a NaN = NaN"

text \<open>\<^verbatim>\<open>Math.max(0, x)\<close>: NaN is contagious, minus infinity loses against zero.\<close>

fun math_max0 :: "jsnum \<Rightarrow> jsnum" where
  "math_max0 (Finite x) = Finite (max 0 x)"
| "math_max0 PosInfinity = PosInfinity"
| "math_max0 NegInfinity = Finite 0"
| "math_max0 NaN = NaN"

text \<open>
  A number sent to the backend travels as JSON, where NaN and the infinities are
  written as \<^verbatim>\<open>null\<close>.
\<close>

fun json_number :: "jsnum \<Rightarrow> rat option" where
  "json_number (Finite x) = Some x"
| "json_number PosInfinity = None"
| "json_number NegInfinity = None"
| "json_number NaN = None"

text \<open>\<^verbatim>\<open>x || 0\<close> for a nullable number column: null and zero both give zero.\<close>

definition or_zero :: "rat option \<Rightarrow> rat" where
  "or_zero x = (case x of None \<Rightarrow> 0 | Some v \<Rightarrow> v)"

text \<open>\<^verbatim>\<open>Math.round\<close> rounds to the nearest integer, a tie going towards plus infinity.\<close>

definition math_round :: "rat \<Rightarrow> int" where
  "math_round x = \<lfloor>x + 1 / 2\<rfloor>"

text \<open>\<^verbatim>\<open>Math.ceil\<close>; the special values pass through.\<close>

fun math_ceil :: "jsnum \<Rightarrow> jsnum" where
  "math_ceil (Finite x) = Finite (of_int \<lceil>x\<rceil>)"
| "math_ceil PosInfinity = PosInfinity"
| "math_ceil NegInfinity = NegInfinity"
| "math_ceil NaN = NaN"


section \<open>Double precision\<close>

text \<open>
  \<open>ilog2 x\<close> is the integer \<open>k\<close> with \<open>2^k \<le> x < 2^(k + 1)\<close>, for a positive \<open>x\<close>
  (lemma \<open>ilog2_bounds\<close> below). It is read off the bit length of the integer part of
  \<open>x\<close>, or of \<open>1 / x\<close> when \<open>x\<close> is below 1.
\<close>

definition ilog2 :: "rat \<Rightarrow> int" where
  "ilog2 x = (if 1 \<le> x then bitlen \<lfloor>x\<rfloor> - 1 else - bitlen (\<lceil>1 / x\<rceil> - 1))"

text \<open>The nearest integer, a tie going to the even one.\<close>

definition round_half_even :: "rat \<Rightarrow> int" where
  "round_half_even y =
     (let n = \<lfloor>y\<rfloor>; r = y - of_int n
      in if r < 1 / 2 then n else if 1 / 2 < r then n + 1 else if even n then n else n + 1)"

text \<open>
  The double nearest to a rational (IEEE 754 binary64, round to nearest, ties to even).
  A double is an integer of at most 53 bits times a power of two whose exponent is at
  least \<open>-1074\<close>; the exponent \<open>e\<close> below is that of the doubles around \<open>x\<close>, \<open>-1074\<close> in
  the subnormal range. A rounded value of \<open>2^1024\<close> or more (\<open>1024 \<le> ilog2 \<bar>y\<bar>\<close>, lemma
  \<open>ilog2_ge_iff\<close>) overflows to an infinity.
\<close>

definition to_double :: "rat \<Rightarrow> jsnum" where
  "to_double x =
     (if x = 0 then Finite 0
      else
        (let e = max (ilog2 \<bar>x\<bar> - 52) (- 1074);
             y = of_int (round_half_even (x / 2 powi e)) * 2 powi e
         in if 1024 \<le> ilog2 \<bar>y\<bar> then (if 0 < x then PosInfinity else NegInfinity)
            else Finite y))"

text \<open>
  \<^verbatim>\<open>x / y\<close>, \<^verbatim>\<open>x + y\<close> and \<^verbatim>\<open>x * y\<close> on numbers: the exact result of finite operands is
  rounded to the nearest double; the special values follow IEEE 754.
\<close>

definition double_div :: "jsnum \<Rightarrow> jsnum \<Rightarrow> jsnum" where
  "double_div x y =
     (case x of
        NaN \<Rightarrow> NaN
      | Finite a \<Rightarrow>
          (case y of
             NaN \<Rightarrow> NaN
           | Finite b \<Rightarrow>
               (if b = 0 then (if a = 0 then NaN else if 0 < a then PosInfinity else NegInfinity)
                else to_double (a / b))
           | PosInfinity \<Rightarrow> Finite 0
           | NegInfinity \<Rightarrow> Finite 0)
      | PosInfinity \<Rightarrow>
          (case y of
             Finite b \<Rightarrow> (if 0 \<le> b then PosInfinity else NegInfinity)
           | PosInfinity \<Rightarrow> NaN
           | NegInfinity \<Rightarrow> NaN
           | NaN \<Rightarrow> NaN)
      | NegInfinity \<Rightarrow>
          (case y of
             Finite b \<Rightarrow> (if 0 \<le> b then NegInfinity else PosInfinity)
           | PosInfinity \<Rightarrow> NaN
           | NegInfinity \<Rightarrow> NaN
           | NaN \<Rightarrow> NaN))"

definition double_add :: "jsnum \<Rightarrow> jsnum \<Rightarrow> jsnum" where
  "double_add x y =
     (case x of
        NaN \<Rightarrow> NaN
      | Finite a \<Rightarrow>
          (case y of
             Finite b \<Rightarrow> to_double (a + b)
           | PosInfinity \<Rightarrow> PosInfinity
           | NegInfinity \<Rightarrow> NegInfinity
           | NaN \<Rightarrow> NaN)
      | PosInfinity \<Rightarrow>
          (case y of
             Finite b \<Rightarrow> PosInfinity
           | PosInfinity \<Rightarrow> PosInfinity
           | NegInfinity \<Rightarrow> NaN
           | NaN \<Rightarrow> NaN)
      | NegInfinity \<Rightarrow>
          (case y of
             Finite b \<Rightarrow> NegInfinity
           | PosInfinity \<Rightarrow> NaN
           | NegInfinity \<Rightarrow> NegInfinity
           | NaN \<Rightarrow> NaN))"

definition double_mul :: "jsnum \<Rightarrow> jsnum \<Rightarrow> jsnum" where
  "double_mul x y =
     (case x of
        NaN \<Rightarrow> NaN
      | Finite a \<Rightarrow>
          (case y of
             Finite b \<Rightarrow> to_double (a * b)
           | PosInfinity \<Rightarrow> (if a = 0 then NaN else if 0 < a then PosInfinity else NegInfinity)
           | NegInfinity \<Rightarrow> (if a = 0 then NaN else if 0 < a then NegInfinity else PosInfinity)
           | NaN \<Rightarrow> NaN)
      | PosInfinity \<Rightarrow>
          (case y of
             Finite b \<Rightarrow> (if b = 0 then NaN else if 0 < b then PosInfinity else NegInfinity)
           | PosInfinity \<Rightarrow> PosInfinity
           | NegInfinity \<Rightarrow> NegInfinity
           | NaN \<Rightarrow> NaN)
      | NegInfinity \<Rightarrow>
          (case y of
             Finite b \<Rightarrow> (if b = 0 then NaN else if 0 < b then NegInfinity else PosInfinity)
           | PosInfinity \<Rightarrow> NegInfinity
           | NegInfinity \<Rightarrow> PosInfinity
           | NaN \<Rightarrow> NaN))"

text \<open>
  \<^verbatim>\<open>Math.round\<close> on a number. The integer nearest to a double is a double, so nothing is
  rounded twice.
\<close>

fun math_round_num :: "jsnum \<Rightarrow> jsnum" where
  "math_round_num (Finite x) = Finite (of_int (math_round x))"
| "math_round_num x = x"


section \<open>Rows of the backend tables\<close>

text \<open>
  One entry of the \<^verbatim>\<open>unit_conversions\<close> array of an \<^verbatim>\<open>items\<close> row
  (\<^verbatim>\<open>DBUnitConversion\<close>). The array is JSON, so any field may be absent; \<open>None\<close>
  stands for an absent field.
\<close>

record DBUnitConversion =
  unit_name :: "string option"
  to_unit_id :: "string option"
  conversion_rate :: "rat option"
  base_price :: "rat option"
  sell_price :: "rat option"

text \<open>
  What a select returns in the \<^verbatim>\<open>unit_conversions\<close> column: null, a string (the
  loaders test \<^verbatim>\<open>typeof item.unit_conversions === 'string'\<close> and parse it), or an
  array.
\<close>

datatype unit_conversions_column =
  ColNull | ColString string | ColArray "DBUnitConversion list"

text \<open>
  The columns of an \<^verbatim>\<open>items\<close> row that the item form writes on every save
  (\<^verbatim>\<open>itemUpdateData\<close>), and the row itself, which has the stock besides
  (\<^verbatim>\<open>mainItemData\<close> is a whole row). \<^verbatim>\<open>description\<close>, \<^verbatim>\<open>rack\<close> and
  \<^verbatim>\<open>barcode\<close> are written as null when the form field is empty.
\<close>

record item_columns =
  name :: string
  category_id :: string
  type_id :: string
  unit_id :: string
  base_price :: rat
  sell_price :: rat
  min_stock :: rat
  description :: "string option"
  is_active :: bool
  rack :: "string option"
  barcode :: "string option"
  code :: string
  is_medicine :: bool
  base_unit :: "string option"
  has_expiry_date :: bool
  unit_conversions :: unit_conversions_column

record item_row = item_columns +
  stock :: "rat option"

text \<open>A \<^verbatim>\<open>purchase_items\<close> row as selected by \<^verbatim>\<open>"item_id, quantity, unit"\<close>.\<close>

record purchase_item =
  item_id :: string
  quantity :: rat
  unit :: "string option"

record db =
  items :: "string \<Rightarrow> item_row option"
  purchases :: "string set"
  purchase_items :: "(string \<times> purchase_item) list"

datatype error = Error string

fun message :: "error \<Rightarrow> string" where
  "message (Error m) = m"

text \<open>
  How one awaited backend call ends: it resolves with data, it resolves with an
  \<^verbatim>\<open>error\<close> field set, or the promise rejects. A run of the client is driven by the
  list of outcomes of its successive calls; calls beyond the list succeed.
\<close>

datatype outcome = Ok | ErrorResult error | Throws error

fun next_outcome :: "outcome list \<Rightarrow> outcome \<times> outcome list" where
  "next_outcome [] = (Ok, [])"
| "next_outcome (x # xs) = (x, xs)"


section \<open>Deleting a purchase (pages/purchases/purchase-list)\<close>

text \<open>\<^verbatim>\<open>uc.unit_name === item.unit\<close>: an absent name is never equal to a string or to null.\<close>

definition unit_name_matches :: "purchase_item \<Rightarrow> DBUnitConversion \<Rightarrow> bool" where
  "unit_name_matches item uc =
     (case unit_name uc of
        None \<Rightarrow> False
      | Some n \<Rightarrow> (case unit item of None \<Rightarrow> False | Some u \<Rightarrow> n = u))"

text \<open>
  Lines 159 to 171: the quantity of a purchase line in the item's base unit. Calling
  \<^verbatim>\<open>.find\<close> on a string column raises a TypeError.
\<close>

definition quantityInBaseUnit :: "purchase_item \<Rightarrow> item_row \<Rightarrow> error + jsnum" where
  "quantityInBaseUnit item itemData =
     (if unit item \<noteq> base_unit itemData then
        (case unit_conversions itemData of
           ColNull \<Rightarrow> Inr (Finite (quantity item))
         | ColString s \<Rightarrow> Inl (Error ''itemData.unit_conversions.find is not a function'')
         | ColArray ucs \<Rightarrow>
             (case List.find (unit_name_matches item) ucs of
                None \<Rightarrow> Inr (Finite (quantity item))
              | Some unitConversion \<Rightarrow>
                  Inr (js_div (quantity item) (conversion_rate unitConversion))))
      else Inr (Finite (quantity item)))"

text \<open>Lines 173 to 176.\<close>

definition newStock :: "item_row \<Rightarrow> jsnum \<Rightarrow> jsnum" where
  "newStock itemData q = math_max0 (js_sub (or_zero (stock itemData)) q)"

text \<open>\<^verbatim>\<open>update({ stock: newStock }).eq("id", item_id)\<close> on the items table.\<close>

definition update_stock :: "db \<Rightarrow> string \<Rightarrow> jsnum \<Rightarrow> db" where
  "update_stock d i v =
     (case items d i of
        None \<Rightarrow> d
      | Some row \<Rightarrow> d\<lparr>items := (items d)(i \<mapsto> row\<lparr>stock := json_number v\<rparr>)\<rparr>)"

text \<open>
  The loop of lines 151 to 182. Neither the select nor the update looks at the
  \<^verbatim>\<open>error\<close> field of its result: a select that fails, or finds no row, leaves
  \<^verbatim>\<open>itemData\<close> null and the line is skipped; an update that fails is ignored. Only a
  rejected promise (or the TypeError above) leaves the loop, and nothing is undone.
  The result carries the outcomes not yet consumed and the database as it then is.
\<close>

fun stock_rollback ::
  "outcome list \<Rightarrow> db \<Rightarrow> purchase_item list \<Rightarrow> (error + unit) \<times> outcome list \<times> db" where
  "stock_rollback plan d [] = (Inr (), plan, d)"
| "stock_rollback plan d (item # rest) =
     (case next_outcome plan of
        (Throws e, plan1) \<Rightarrow> (Inl e, plan1, d)
      | (ErrorResult e, plan1) \<Rightarrow> stock_rollback plan1 d rest
      | (Ok, plan1) \<Rightarrow>
          (case items d (item_id item) of
             None \<Rightarrow> stock_rollback plan1 d rest
           | Some itemData \<Rightarrow>
               (case quantityInBaseUnit item itemData of
                  Inl e \<Rightarrow> (Inl e, plan1, d)
                | Inr q \<Rightarrow>
                    (case next_outcome plan1 of
                       (Throws e, plan2) \<Rightarrow> (Inl e, plan2, d)
                     | (ErrorResult e, plan2) \<Rightarrow> stock_rollback plan2 d rest
                     | (Ok, plan2) \<Rightarrow>
                         stock_rollback plan2
                           (update_stock d (item_id item) (newStock itemData q)) rest))))"

text \<open>
  \<^verbatim>\<open>mutationFn\<close> of \<^verbatim>\<open>deletePurchaseMutation\<close>, lines 143 to 187: select the
  lines of the purchase, run the loop, delete the purchase row. An error result of the
  first select and of the final delete is thrown. What the backend does to the lines of a
  deleted purchase is its schema's business and is left out: the lines stay.
\<close>

definition select_purchase_items :: "db \<Rightarrow> string \<Rightarrow> purchase_item list" where
  "select_purchase_items d pid = map snd (filter (\<lambda>r. fst r = pid) (purchase_items d))"

definition deletePurchaseMutation :: "outcome list \<Rightarrow> db \<Rightarrow> string \<Rightarrow> (error + unit) \<times> db" where
  "deletePurchaseMutation plan d pid =
     (case next_outcome plan of
        (Throws e, plan1) \<Rightarrow> (Inl e, d)
      | (ErrorResult e, plan1) \<Rightarrow> (Inl e, d)
      | (Ok, plan1) \<Rightarrow>
          (case stock_rollback plan1 d (select_purchase_items d pid) of
             (Inl e, plan2, d') \<Rightarrow> (Inl e, d')
           | (Inr u, plan2, d') \<Rightarrow>
               (case next_outcome plan2 of
                  (Throws e, plan3) \<Rightarrow> (Inl e, d')
                | (ErrorResult e, plan3) \<Rightarrow> (Inl e, d')
                | (Ok, plan3) \<Rightarrow> (Inr (), d'\<lparr>purchases := purchases d' - {pid}\<rparr>))))"


section \<open>The item form (hooks/addItem)\<close>

record FormData =
  code :: string
  name :: string
  type_id :: string
  category_id :: string
  unit_id :: string
  rack :: string
  barcode :: string
  description :: string
  base_price :: rat
  sell_price :: rat
  min_stock :: rat
  is_active :: bool
  is_medicine :: bool
  has_expiry_date :: bool
  updated_at :: "string option"

text \<open>
  A unit of the master list (\<^verbatim>\<open>UnitData\<close>). The field \<^verbatim>\<open>id\<close> is written \<open>id'\<close>
  here and below, \<open>id\<close> being the identity function.
\<close>

record UnitData =
  id' :: string
  name :: string

text \<open>
  A conversion as the form holds it. \<^verbatim>\<open>addUnitConversion\<close> is given one without an
  \<^verbatim>\<open>id\<close>; the entries of \<^verbatim>\<open>unitConversionHook.conversions\<close> have one.
\<close>

record NewUnitConversion =
  to_unit_id :: string
  unit_name :: string
  unit :: UnitData
  conversion :: rat
  basePrice :: rat
  sellPrice :: rat
  conversion_rate :: rat

record UnitConversion = NewUnitConversion +
  id' :: string

text \<open>
  Lines 828 to 834. The margin is any number; the base price of the form is a finite one.
  \<^verbatim>\<open>margin / 100\<close>, \<^verbatim>\<open>1 + _\<close> and \<^verbatim>\<open>base_price * _\<close> are each rounded to a double.
\<close>

definition calculateSellPriceFromMargin :: "FormData \<Rightarrow> jsnum \<Rightarrow> jsnum" where
  "calculateSellPriceFromMargin formData margin =
     (if 0 < FormData.base_price formData
      then math_round_num
             (double_mul (Finite (FormData.base_price formData))
                (double_add (Finite 1) (double_div margin (Finite 100))))
      else Finite 0)"

subsection \<open>Loading the conversions of an item (fetchItemData, lines 474 to 522)\<close>









subsection \<open>Saving (handleSubmit, lines 655 to 752)\<close>

record form_state =
  formData :: FormData
  isEditMode :: bool
  itemId :: "string option"
  baseUnit :: string
  conversions :: "UnitConversion list"
  refetchItems :: bool
  saving :: bool

text \<open>\<^verbatim>\<open>s || null\<close>.\<close>

definition or_null :: "string \<Rightarrow> string option" where
  "or_null s = (if s = [] then None else Some s)"

text \<open>Lines 676 to 682 and, word for word, 707 to 713.\<close>

definition unit_conversions_payload :: "UnitConversion list \<Rightarrow> DBUnitConversion list" where
  "unit_conversions_payload convs =
     map (\<lambda>uc. \<lparr>DBUnitConversion.unit_name = Some (UnitData.name (NewUnitConversion.unit uc)),
                DBUnitConversion.to_unit_id = Some (NewUnitConversion.to_unit_id uc),
                DBUnitConversion.conversion_rate = Some (NewUnitConversion.conversion_rate uc),
                DBUnitConversion.base_price = Some (NewUnitConversion.basePrice uc),
                DBUnitConversion.sell_price = Some (NewUnitConversion.sellPrice uc)\<rparr>) convs"

definition itemUpdateData :: "form_state \<Rightarrow> item_columns" where
  "itemUpdateData st =
     \<lparr>item_columns.name = FormData.name (formData st),
      item_columns.category_id = FormData.category_id (formData st),
      item_columns.type_id = FormData.type_id (formData st),
      item_columns.unit_id = FormData.unit_id (formData st),
      item_columns.base_price = FormData.base_price (formData st),
      item_columns.sell_price = FormData.sell_price (formData st),
      item_columns.min_stock = FormData.min_stock (formData st),
      item_columns.description = or_null (FormData.description (formData st)),
      item_columns.is_active = FormData.is_active (formData st),
      item_columns.rack = or_null (FormData.rack (formData st)),
      item_columns.barcode = or_null (FormData.barcode (formData st)),
      item_columns.code = FormData.code (formData st),
      item_columns.is_medicine = FormData.is_medicine (formData st),
      item_columns.base_unit = Some (baseUnit st),
      item_columns.has_expiry_date = FormData.has_expiry_date (formData st),
      item_columns.unit_conversions = ColArray (unit_conversions_payload (conversions st))\<rparr>"

definition mainItemData :: "form_state \<Rightarrow> item_row" where
  "mainItemData st =
     \<lparr>item_columns.name = FormData.name (formData st),
      item_columns.category_id = FormData.category_id (formData st),
      item_columns.type_id = FormData.type_id (formData st),
      item_columns.unit_id = FormData.unit_id (formData st),
      item_columns.base_price = FormData.base_price (formData st),
      item_columns.sell_price = FormData.sell_price (formData st),
      item_columns.min_stock = FormData.min_stock (formData st),
      item_columns.description = or_null (FormData.description (formData st)),
      item_columns.is_active = FormData.is_active (formData st),
      item_columns.rack = or_null (FormData.rack (formData st)),
      item_columns.barcode = or_null (FormData.barcode (formData st)),
      item_columns.code = FormData.code (formData st),
      item_columns.is_medicine = FormData.is_medicine (formData st),
      item_columns.base_unit = Some (baseUnit st),
      item_columns.has_expiry_date = FormData.has_expiry_date (formData st),
      item_columns.unit_conversions = ColArray (unit_conversions_payload (conversions st)),
      stock = Some 0\<rparr>"

text \<open>What the user and the libraries get to see of a handler, in order.\<close>

datatype event =
    BackendCall string string
  | ConsoleError string
  | Alert string
  | InvalidateQueries string
  | SetTimeout nat string
  | RemoveCache
  | OnClose
  | SetSaving bool
  | SetIsAddModalOpen bool
  | SetIsEditModalOpen bool
  | SetEditingItemNull

text \<open>\<^verbatim>\<open>update(itemUpdateData).eq("id", itemId)\<close>: the stock column is not in the payload.\<close>

definition update_item :: "db \<Rightarrow> string option \<Rightarrow> item_columns \<Rightarrow> db" where
  "update_item d i cols =
     (case i of
        None \<Rightarrow> d
      | Some k \<Rightarrow>
          (case items d k of
             None \<Rightarrow> d
           | Some row \<Rightarrow>
               d\<lparr>items := (items d)(k \<mapsto> item_columns.extend cols \<lparr>stock = stock row\<rparr>)\<rparr>))"

definition insert_item :: "db \<Rightarrow> string \<Rightarrow> item_row \<Rightarrow> db" where
  "insert_item d k row = d\<lparr>items := (items d)(k \<mapsto> row)\<rparr>"

text \<open>Lines 724 to 745, what follows a successful write.\<close>

definition after_save :: "form_state \<Rightarrow> event list" where
  "after_save st =
     [InvalidateQueries ''items'', SetTimeout 100 ''refetchQueries'']
     @ (if refetchItems st then [SetTimeout 150 ''refetchItems''] else [])
     @ [RemoveCache, OnClose]"

text \<open>
  The \<^verbatim>\<open>try\<close> block, lines 659 to 745. \<open>res\<close> is the outcome of the one backend call,
  \<open>new_id\<close> the id the backend gives a new row and \<open>insertedItem\<close> tells whether the
  insert returned that row.
\<close>

definition handleSubmit_try ::
  "outcome \<Rightarrow> string \<Rightarrow> bool \<Rightarrow> form_state \<Rightarrow> db \<Rightarrow> (error + unit) \<times> db \<times> event list" where
  "handleSubmit_try res new_id insertedItem st d =
     (if isEditMode st then
        (case res of
           Throws e \<Rightarrow> (Inl e, d, [BackendCall ''items'' ''update''])
         | ErrorResult updateError \<Rightarrow> (Inl updateError, d, [BackendCall ''items'' ''update''])
         | Ok \<Rightarrow>
             (Inr (), update_item d (itemId st) (itemUpdateData st),
              BackendCall ''items'' ''update'' # after_save st))
      else
        (case res of
           Throws e \<Rightarrow> (Inl e, d, [BackendCall ''items'' ''insert''])
         | ErrorResult mainError \<Rightarrow> (Inl mainError, d, [BackendCall ''items'' ''insert''])
         | Ok \<Rightarrow>
             (if insertedItem then
                (Inr (), insert_item d new_id (mainItemData st),
                 BackendCall ''items'' ''insert'' # after_save st)
              else
                (Inl (Error ''Gagal mendapatkan ID item baru setelah insert.''),
                 insert_item d new_id (mainItemData st),
                 [BackendCall ''items'' ''insert'']))))"

text \<open>The whole handler: \<^verbatim>\<open>catch\<close> logs and alerts, \<^verbatim>\<open>finally\<close> resets the flag.\<close>

definition handleSubmit ::
  "outcome \<Rightarrow> string \<Rightarrow> bool \<Rightarrow> form_state \<Rightarrow> db
     \<Rightarrow> (error + unit) \<times> form_state \<times> db \<times> event list" where
  "handleSubmit res new_id insertedItem st d =
     (case handleSubmit_try res new_id insertedItem st d of
        (Inr u, d', evs) \<Rightarrow>
          (Inr (), st\<lparr>saving := False\<rparr>, d', SetSaving True # evs @ [SetSaving False])
      | (Inl e, d', evs) \<Rightarrow>
          (Inr (), st\<lparr>saving := False\<rparr>, d',
           SetSaving True # evs
           @ [ConsoleError ''Error saving item:'',
              Alert ''Gagal menyimpan data item. Silakan coba lagi.'',
              SetSaving False]))"


section \<open>Master data (handlers/master-data-management)\<close>

subsection \<open>Search and pagination state\<close>

record list_state =
  search :: string
  debouncedSearch :: string
  currentPage :: int
  itemsPerPage :: int

text \<open>Lines 25 to 28.\<close>

definition initial_list_state :: list_state where
  "initial_list_state = \<lparr>search = [], debouncedSearch = [], currentPage = 1, itemsPerPage = 10\<rparr>"

text \<open>
  What can happen to that state through the hook: the search box sets \<^verbatim>\<open>search\<close>, the
  debounce timer of lines 40 to 47 fires, and the two pagination handlers of lines 246 to
  252. The state setters of one callback take effect together. The hook also hands out
  the bare setters of these four fields; the pages use the handlers, and a bare setter is
  no step here.
\<close>

datatype list_action =
    SetSearch string
  | DebounceTimer
  | HandlePageChange int
  | HandleItemsPerPageChange int

fun list_step :: "list_action \<Rightarrow> list_state \<Rightarrow> list_state" where
  "list_step (SetSearch v) s = s\<lparr>search := v\<rparr>"
| "list_step DebounceTimer s = s\<lparr>debouncedSearch := search s, currentPage := 1\<rparr>"
| "list_step (HandlePageChange newPage) s = s\<lparr>currentPage := newPage\<rparr>"
| "list_step (HandleItemsPerPageChange v) s = s\<lparr>itemsPerPage := v, currentPage := 1\<rparr>"

text \<open>
  The arguments of the query the hook issues in a state (line 163), as
  \<open>(page, searchTerm, limit)\<close>.
\<close>

definition query_args :: "list_state \<Rightarrow> int \<times> string \<times> int" where
  "query_args s = (currentPage s, debouncedSearch s, itemsPerPage s)"

subsection \<open>Fetching a page\<close>

text \<open>
  The backend's \<^verbatim>\<open>range(from, to)\<close> on an ordered selection: the rows at the zero-based
  positions \<open>from\<close> to \<open>to\<close>, both included.
\<close>

definition range_rows :: "'a list \<Rightarrow> int \<Rightarrow> int \<Rightarrow> 'a list" where
  "range_rows rows from to = take (nat (to - from + 1)) (drop (nat from) rows)"

fun first_throw :: "outcome list \<Rightarrow> error option" where
  "first_throw [] = None"
| "first_throw (Throws e # os) = Some e"
| "first_throw (x # os) = first_throw os"

text \<open>
  \<^verbatim>\<open>fetchData\<close>, lines 49 to 153. \<open>rows\<close> are the rows of the table that match the search
  term, ordered by name; the backend's exact count is their number. The items branch
  makes four calls (the page, the count and the unit list together, then the unit list
  again) and rewrites each row of the page, which is the parameter \<open>complete_row\<close>; the other
  tables take one call.
\<close>

definition fetchData ::
  "string \<Rightarrow> ('a \<Rightarrow> 'a) \<Rightarrow> outcome list \<Rightarrow> 'a list \<Rightarrow> int \<Rightarrow> int \<Rightarrow> error + ('a list \<times> nat)" where
  "fetchData tableName complete_row plan rows page limit =
     (let from = (page - 1) * limit in
      if tableName = ''items'' then
        (let to = from + limit - 1;
             (itemsResult, plan1) = next_outcome plan;
             (countResult, plan2) = next_outcome plan1;
             (unitsResult, plan3) = next_outcome plan2;
             (allUnits, plan4) = next_outcome plan3
         in case first_throw [itemsResult, countResult, unitsResult] of
              Some e \<Rightarrow> Inl e
            | None \<Rightarrow>
                (case itemsResult of
                   ErrorResult e \<Rightarrow> Inl e
                 | _ \<Rightarrow>
                     (case countResult of
                        ErrorResult e \<Rightarrow> Inl e
                      | _ \<Rightarrow>
                          (case allUnits of
                             Throws e \<Rightarrow> Inl e
                           | _ \<Rightarrow> Inr (map complete_row (range_rows rows from to), length rows)))))
      else
        (let to = from + limit - 1
         in case fst (next_outcome plan) of
              Throws e \<Rightarrow> Inl e
            | ErrorResult e \<Rightarrow> Inl e
            | Ok \<Rightarrow> Inr (range_rows rows from to, length rows)))"

text \<open>
  \<^verbatim>\<open>fetchPurchases\<close> of the purchase list, lines 83 to 133: the count first, then the
  page; \<open>transform\<close> is the rewriting of lines 121 to 127. The \<^verbatim>\<open>catch\<close> logs and throws
  again.
\<close>

definition fetchPurchases ::
  "('a \<Rightarrow> 'a) \<Rightarrow> outcome list \<Rightarrow> 'a list \<Rightarrow> int \<Rightarrow> int \<Rightarrow> error + ('a list \<times> nat)" where
  "fetchPurchases transform plan rows page limit =
     (case next_outcome plan of
        (Throws e, plan1) \<Rightarrow> Inl e
      | (ErrorResult countError, plan1) \<Rightarrow> Inl countError
      | (Ok, plan1) \<Rightarrow>
          (let from = (page - 1) * limit;
               to = from + limit - 1
           in case fst (next_outcome plan1) of
                Throws e \<Rightarrow> Inl e
              | ErrorResult e \<Rightarrow> Inl e
              | Ok \<Rightarrow> Inr (map transform (range_rows rows from to), length rows)))"

text \<open>Line 254 (and line 259 of the purchase list).\<close>

definition totalPages :: "nat \<Rightarrow> int \<Rightarrow> jsnum" where
  "totalPages totalItems perPage =
     math_ceil (js_div (of_nat totalItems) (Some (of_int perPage)))"

subsection \<open>Mutations\<close>

text \<open>The options given to \<^verbatim>\<open>useMutation\<close>.\<close>

record mutation =
  mutationFn :: "outcome \<Rightarrow> (error + unit) \<times> event list"
  onSuccess :: "event list"
  onError :: "error \<Rightarrow> event list"

text \<open>
  The three mutation functions make one backend call and throw the error it returns
  (\<^verbatim>\<open>if (error) throw error\<close>).
\<close>

definition backend_write :: "string \<Rightarrow> string \<Rightarrow> outcome \<Rightarrow> (error + unit) \<times> event list" where
  "backend_write tableName operation res =
     (case res of
        Ok \<Rightarrow> (Inr (), [BackendCall tableName operation])
      | ErrorResult e \<Rightarrow> (Inl e, [BackendCall tableName operation])
      | Throws e \<Rightarrow> (Inl e, [BackendCall tableName operation]))"

definition addMutation :: "string \<Rightarrow> string \<Rightarrow> mutation" where
  "addMutation tableName entityNameLabel =
     \<lparr>mutationFn = backend_write tableName ''insert'',
      onSuccess = [InvalidateQueries tableName, SetIsAddModalOpen False],
      onError = (\<lambda>e. [Alert (''Gagal menambahkan '' @ entityNameLabel @ '': '' @ message e)])\<rparr>"

definition updateMutation :: "string \<Rightarrow> string \<Rightarrow> mutation" where
  "updateMutation tableName entityNameLabel =
     \<lparr>mutationFn = backend_write tableName ''update'',
      onSuccess = [InvalidateQueries tableName, SetIsEditModalOpen False, SetEditingItemNull],
      onError = (\<lambda>e. [Alert (''Gagal memperbarui '' @ entityNameLabel @ '': '' @ message e)])\<rparr>"

definition deleteMutation :: "string \<Rightarrow> string \<Rightarrow> mutation" where
  "deleteMutation tableName entityNameLabel =
     \<lparr>mutationFn = backend_write tableName ''delete'',
      onSuccess = [InvalidateQueries tableName, SetIsEditModalOpen False, SetEditingItemNull],
      onError = (\<lambda>e. [Alert (''Gagal menghapus '' @ entityNameLabel @ '': '' @ message e)])\<rparr>"

text \<open>
  The query library's two ways of running a mutation, with its default of no retry:
  the function runs once and the matching callback follows. \<^verbatim>\<open>mutate\<close> keeps the error
  to itself; the promise of \<^verbatim>\<open>mutateAsync\<close> rejects with it.
\<close>

definition mutateAsync :: "mutation \<Rightarrow> outcome \<Rightarrow> (error + unit) \<times> event list" where
  "mutateAsync m res =
     (case mutationFn m res of
        (Inr u, evs) \<Rightarrow> (Inr (), evs @ onSuccess m)
      | (Inl e, evs) \<Rightarrow> (Inl e, evs @ onError m e))"

definition mutate :: "mutation \<Rightarrow> outcome \<Rightarrow> (error + unit) \<times> event list" where
  "mutate m res = (Inr (), snd (mutateAsync m res))"

text \<open>
  \<^verbatim>\<open>handleModalSubmit\<close>, lines 233 to 244: it awaits \<^verbatim>\<open>mutateAsync\<close> outside any
  \<^verbatim>\<open>try\<close>. \<open>given_id\<close> is \<^verbatim>\<open>itemData.id\<close>.
\<close>

definition handleModalSubmit ::
  "string \<Rightarrow> string \<Rightarrow> string option \<Rightarrow> outcome \<Rightarrow> (error + unit) \<times> event list" where
  "handleModalSubmit tableName entityNameLabel given_id res =
     (if given_id \<noteq> None \<and> given_id \<noteq> Some []
      then mutateAsync (updateMutation tableName entityNameLabel) res
      else mutateAsync (addMutation tableName entityNameLabel) res)"

text \<open>How many alerts, and how many backend calls, a run shows.\<close>

fun is_alert :: "event \<Rightarrow> bool" where
  "is_alert (Alert m) = True"
| "is_alert e = False"

fun is_backend_call :: "event \<Rightarrow> bool" where
  "is_backend_call (BackendCall t operation) = True"
| "is_backend_call e = False"


section \<open>Example data\<close>

text \<open>
  An item kept in boxes, with two strips to the box, a purchase of two lines, and the
  database holding them.
\<close>

definition strip_conversion :: DBUnitConversion where
  "strip_conversion =
     \<lparr>DBUnitConversion.unit_name = Some ''Strip'', DBUnitConversion.to_unit_id = Some ''unit-2'',
      DBUnitConversion.conversion_rate = Some 2, DBUnitConversion.base_price = Some 500,
      DBUnitConversion.sell_price = Some 600\<rparr>"

definition box_item :: item_row where
  "box_item =
     \<lparr>item_columns.name = ''Paracetamol'', item_columns.category_id = ''cat-1'',
      item_columns.type_id = ''type-1'', item_columns.unit_id = ''unit-1'',
      item_columns.base_price = 1000, item_columns.sell_price = 1200,
      item_columns.min_stock = 10, item_columns.description = None,
      item_columns.is_active = True, item_columns.rack = None, item_columns.barcode = None,
      item_columns.code = ''KBAN01'', item_columns.is_medicine = True,
      item_columns.base_unit = Some ''Box'', item_columns.has_expiry_date = False,
      item_columns.unit_conversions = ColArray [strip_conversion],
      stock = Some 8\<rparr>"

definition strip_line :: purchase_item where
  "strip_line = \<lparr>item_id = ''item-1'', quantity = 10, purchase_item.unit = Some ''Strip''\<rparr>"

definition box_line :: purchase_item where
  "box_line = \<lparr>item_id = ''item-2'', quantity = 4, purchase_item.unit = Some ''Box''\<rparr>"

definition tube_line :: purchase_item where
  "tube_line = \<lparr>item_id = ''item-1'', quantity = 10, purchase_item.unit = Some ''Tube''\<rparr>"

definition example_db :: db where
  "example_db =
     \<lparr>items = [''item-1'' \<mapsto> box_item, ''item-2'' \<mapsto> box_item\<lparr>stock := Some 6\<rparr>],
      purchases = {''purchase-1''},
      purchase_items = [(''purchase-1'', strip_line), (''purchase-1'', box_line)]\<rparr>"

definition after_first_line :: db where
  "after_first_line = update_stock example_db ''item-1'' (Finite 3)"


text \<open>
  A form as it stands when a new item is entered and the same form editing the first item
  of the database above; a conversion stored with an empty \<^verbatim>\<open>to_unit_id\<close>, an item
  holding it and the form editing that item; a conversion stored with an empty name; a
  page state, a table of seven rows and a backend error.
\<close>

definition example_form :: FormData where
  "example_form =
     \<lparr>FormData.code = ''KBAN01'', FormData.name = ''Paracetamol'', FormData.type_id = ''type-1'',
      FormData.category_id = ''cat-1'', FormData.unit_id = ''unit-1'', FormData.rack = [],
      FormData.barcode = [], FormData.description = [], FormData.base_price = 1000,
      FormData.sell_price = 1200, FormData.min_stock = 10, FormData.is_active = True,
      FormData.is_medicine = True, FormData.has_expiry_date = False, updated_at = None\<rparr>"

definition new_item_form :: form_state where
  "new_item_form =
     \<lparr>formData = example_form, isEditMode = False, itemId = None, baseUnit = ''Box'',
      conversions = [], refetchItems = False, saving = False\<rparr>"

definition empty_db :: db where
  "empty_db = \<lparr>items = Map.empty, purchases = {}, purchase_items = []\<rparr>"











definition third_page :: list_state where
  "third_page = \<lparr>search = ''para'', debouncedSearch = [], currentPage = 3, itemsPerPage = 10\<rparr>"

definition seven_rows :: "string list" where
  "seven_rows = [''a'', ''b'', ''c'', ''d'', ''e'', ''f'', ''g'']"

definition category_error :: error where
  "category_error = Error ''duplicate key value''"


section \<open>Properties of the purchase deletion\<close>

lemma find_unit_name_matches:
  "List.find (unit_name_matches item) ucs = Some uc \<Longrightarrow>
     DBUnitConversion.unit_name uc = purchase_item.unit item"
  by (auto simp: find_Some_iff unit_name_matches_def split: option.splits)

text \<open>
  C1, as the code has it. For a purchase line whose unit differs from the item's base
  unit and whose unit name is found in the item's conversion array, the quantity taken
  off the stock, before clamping, is the purchased quantity \<^emph>\<open>divided\<close> by the conversion
  rate of the first record of that unit name: the rate counts how many of the line's unit
  make one base unit. For a rate that is a number other than zero this is the exact
  quotient, and the stock before clamping is the previous stock less that quotient.
\<close>

theorem converted_quantity_is_quotient:
  assumes "purchase_item.unit item \<noteq> base_unit itemData"
    and "unit_conversions itemData = ColArray ucs"
    and "List.find (unit_name_matches item) ucs = Some uc"
  shows "DBUnitConversion.unit_name uc = purchase_item.unit item
       \<and> quantityInBaseUnit item itemData
           = Inr (js_div (quantity item) (DBUnitConversion.conversion_rate uc))
       \<and> (\<forall>r. DBUnitConversion.conversion_rate uc = Some r \<longrightarrow> r \<noteq> 0 \<longrightarrow>
             quantityInBaseUnit item itemData = Inr (Finite (quantity item / r))
             \<and> js_sub (or_zero (stock itemData)) (Finite (quantity item / r))
                 = Finite (or_zero (stock itemData) - quantity item / r))"
  using assms find_unit_name_matches [OF assms(3)]
  by (simp add: quantityInBaseUnit_def js_div_def)

theorem converted_quantity_is_quotient_witness:
  "purchase_item.unit strip_line \<noteq> base_unit box_item
   \<and> unit_conversions box_item = ColArray [strip_conversion]
   \<and> List.find (unit_name_matches strip_line) [strip_conversion] = Some strip_conversion
   \<and> DBUnitConversion.conversion_rate strip_conversion = Some 2
   \<and> quantity strip_line = 10
   \<and> quantityInBaseUnit strip_line box_item = Inr (Finite 5)"
proof -
  have h1: "purchase_item.unit strip_line \<noteq> base_unit box_item"
    by (simp add: strip_line_def box_item_def)
  have h2: "unit_conversions box_item = ColArray [strip_conversion]"
    by (simp add: box_item_def)
  have h3: "List.find (unit_name_matches strip_line) [strip_conversion] = Some strip_conversion"
    by (simp add: unit_name_matches_def strip_line_def strip_conversion_def)
  have h4: "DBUnitConversion.conversion_rate strip_conversion = Some 2"
    by (simp add: strip_conversion_def)
  have h5: "quantity strip_line = 10"
    by (simp add: strip_line_def)
  have "\<forall>r. DBUnitConversion.conversion_rate strip_conversion = Some r \<longrightarrow> r \<noteq> 0 \<longrightarrow>
          quantityInBaseUnit strip_line box_item = Inr (Finite (quantity strip_line / r))"
    using converted_quantity_is_quotient [OF h1 h2 h3] by blast
  then have "quantityInBaseUnit strip_line box_item = Inr (Finite (quantity strip_line / 2))"
    using h4 by simp
  then show ?thesis using h1 h2 h3 h4 h5 by simp
qed

text \<open>
  C1 as it was stated has the quantity multiplied by the rate. Ten strips at two strips
  to the box come to five boxes, not twenty.
\<close>

theorem converted_quantity_not_product:
  "purchase_item.unit strip_line \<noteq> base_unit box_item
   \<and> List.find (unit_name_matches strip_line) [strip_conversion] = Some strip_conversion
   \<and> quantity strip_line = 10
   \<and> DBUnitConversion.conversion_rate strip_conversion = Some 2
   \<and> quantityInBaseUnit strip_line box_item = Inr (Finite 5)
   \<and> quantityInBaseUnit strip_line box_item \<noteq> Inr (Finite (quantity strip_line * 2))"
  by (simp add: quantityInBaseUnit_def js_div_def unit_name_matches_def strip_line_def box_item_def strip_conversion_def)

lemma json_number_max0_nonneg: "json_number (math_max0 x) = Some v \<Longrightarrow> 0 \<le> v"
  by (cases x) auto

text \<open>
  C2. When the select and the update of a line both succeed, the stock written to the
  item is \<^verbatim>\<open>Math.max(0, (stock || 0) - quantityInBaseUnit)\<close>: it is never negative, for a
  finite converted quantity it is the larger of zero and the difference, and it is zero
  when the converted quantity exceeds the previous stock.
\<close>

theorem rollback_writes_clamped_stock:
  assumes "items d (item_id item) = Some itemData"
    and "quantityInBaseUnit item itemData = Inr q"
  shows "stock_rollback (Ok # Ok # plan) d (item # rest)
           = stock_rollback plan (update_stock d (item_id item) (newStock itemData q)) rest
       \<and> items (update_stock d (item_id item) (newStock itemData q)) (item_id item)
           = Some (itemData\<lparr>stock := json_number (newStock itemData q)\<rparr>)
       \<and> newStock itemData q = math_max0 (js_sub (or_zero (stock itemData)) q)
       \<and> (\<forall>v. json_number (newStock itemData q) = Some v \<longrightarrow> 0 \<le> v)
       \<and> (\<forall>x. q = Finite x \<longrightarrow>
             json_number (newStock itemData q) = Some (max 0 (or_zero (stock itemData) - x)))
       \<and> (\<forall>x. q = Finite x \<longrightarrow> or_zero (stock itemData) < x \<longrightarrow>
             json_number (newStock itemData q) = Some 0)"
proof -
  have a: "stock_rollback (Ok # Ok # plan) d (item # rest)
           = stock_rollback plan (update_stock d (item_id item) (newStock itemData q)) rest"
    using assms by simp
  have b: "items (update_stock d (item_id item) (newStock itemData q)) (item_id item)
           = Some (itemData\<lparr>stock := json_number (newStock itemData q)\<rparr>)"
    using assms(1) by (simp add: update_stock_def)
  have c: "\<forall>v. json_number (newStock itemData q) = Some v \<longrightarrow> 0 \<le> v"
    by (auto simp: newStock_def dest: json_number_max0_nonneg)
  show ?thesis using a b c by (auto simp: newStock_def)
qed

theorem rollback_writes_clamped_stock_witness:
  "items example_db (item_id strip_line) = Some box_item
   \<and> quantityInBaseUnit strip_line box_item = Inr (Finite 5)
   \<and> json_number (newStock box_item (Finite 5)) = Some 3
   \<and> json_number (newStock box_item (Finite 9)) = Some 0
   \<and> stock_rollback [Ok, Ok] example_db [strip_line]
        = (Inr (), [], update_stock example_db ''item-1'' (Finite 3))"
proof -
  have h1: "items example_db (item_id strip_line) = Some box_item"
    by (simp add: example_db_def strip_line_def)
  have h2: "quantityInBaseUnit strip_line box_item = Inr (Finite 5)"
    by (simp add: quantityInBaseUnit_def js_div_def unit_name_matches_def strip_line_def box_item_def strip_conversion_def)
  have h3: "quantityInBaseUnit (strip_line\<lparr>quantity := 18\<rparr>) box_item = Inr (Finite 9)"
    by (simp add: quantityInBaseUnit_def js_div_def unit_name_matches_def strip_line_def box_item_def strip_conversion_def)
  have s: "or_zero (stock box_item) = 8"
    by (simp add: or_zero_def box_item_def)
  note t = rollback_writes_clamped_stock [OF h1 h2, of "[]" "[]"]
  have n5: "json_number (newStock box_item (Finite 5)) = Some 3"
    using t s by simp
  have "json_number (newStock box_item (Finite 9)) = Some 0"
    using rollback_writes_clamped_stock [of example_db "strip_line\<lparr>quantity := 18\<rparr>" box_item "Finite 9" "[]" "[]"]
      h1 h3 s by (simp add: strip_line_def)
  moreover have "newStock box_item (Finite 5) = Finite 3"
    using t s by simp
  moreover have "item_id strip_line = ''item-1''"
    by (simp add: strip_line_def)
  ultimately show ?thesis using h1 h2 n5 t by simp
qed

text \<open>
  C8. The purchased quantity is used as it is, unconverted, when the line's unit is the
  item's base unit, and when it is not but the conversion array has no record of that
  unit name (or the column is null); the new stock is then the previous stock less the
  raw quantity, clamped at zero.
\<close>

theorem unconverted_quantity:
  "(purchase_item.unit item = base_unit itemData \<longrightarrow>
      quantityInBaseUnit item itemData = Inr (Finite (quantity item)))
   \<and> (purchase_item.unit item \<noteq> base_unit itemData \<longrightarrow>
        unit_conversions itemData = ColArray ucs \<longrightarrow>
        (\<forall>uc \<in> set ucs. \<not> unit_name_matches item uc) \<longrightarrow>
        quantityInBaseUnit item itemData = Inr (Finite (quantity item)))
   \<and> (unit_conversions itemData = ColNull \<longrightarrow>
        quantityInBaseUnit item itemData = Inr (Finite (quantity item)))
   \<and> (quantityInBaseUnit item itemData = Inr (Finite (quantity item)) \<longrightarrow>
        newStock itemData (Finite (quantity item))
          = Finite (max 0 (or_zero (stock itemData) - quantity item)))"
proof -
  have no_match: "List.find (unit_name_matches item) ucs = None"
    if "\<forall>uc \<in> set ucs. \<not> unit_name_matches item uc"
    using that by (simp add: find_None_iff)
  show ?thesis
    by (auto simp: quantityInBaseUnit_def newStock_def no_match)
qed

theorem unconverted_quantity_witness:
  "purchase_item.unit box_line = base_unit box_item
   \<and> quantityInBaseUnit box_line box_item = Inr (Finite 4)
   \<and> purchase_item.unit tube_line \<noteq> base_unit box_item
   \<and> \<not> unit_name_matches tube_line strip_conversion
   \<and> quantityInBaseUnit tube_line box_item = Inr (Finite 10)
   \<and> newStock box_item (Finite 10) = Finite 0"
proof -
  have h1: "purchase_item.unit box_line = base_unit box_item"
    by (simp add: box_line_def box_item_def)
  have h2: "purchase_item.unit tube_line \<noteq> base_unit box_item"
    by (simp add: tube_line_def box_item_def)
  have h3: "unit_conversions box_item = ColArray [strip_conversion]"
    by (simp add: box_item_def)
  have h4: "\<forall>uc \<in> set [strip_conversion]. \<not> unit_name_matches tube_line uc"
    by (simp add: unit_name_matches_def tube_line_def strip_conversion_def)
  have q: "quantity box_line = 4" "quantity tube_line = 10" "or_zero (stock box_item) = 8"
    by (simp_all add: box_line_def tube_line_def box_item_def or_zero_def)
  note a = unconverted_quantity [of box_line box_item "[strip_conversion]"]
  note b = unconverted_quantity [of tube_line box_item "[strip_conversion]"]
  have "quantityInBaseUnit box_line box_item = Inr (Finite 4)"
    using a h1 q by simp
  moreover have c: "quantityInBaseUnit tube_line box_item = Inr (Finite 10)"
    using b h2 h3 h4 q by simp
  moreover have "newStock box_item (Finite 10) = Finite 0"
    using b c q by simp
  ultimately show ?thesis using h1 h2 h4 by simp
qed

lemma stock_rollback_keeps_purchases:
  "stock_rollback plan d xs = (r, p, d') \<Longrightarrow>
     purchases d' = purchases d \<and> purchase_items d' = purchase_items d"
proof (induction xs arbitrary: plan d)
  case Nil
  then show ?case by simp
next
  case (Cons x xs)
  then show ?case
    by (auto simp: update_stock_def
        split: prod.splits outcome.splits option.splits sum.splits)
qed

lemma stock_rollback_other_items:
  "stock_rollback plan d xs = (r, p, d') \<Longrightarrow> i \<notin> item_id ` set xs \<Longrightarrow> items d' i = items d i"
proof (induction xs arbitrary: plan d)
  case Nil
  then show ?case by simp
next
  case (Cons x xs)
  then show ?case
    by (auto simp: update_stock_def
        split: prod.splits outcome.splits option.splits sum.splits)
qed

lemma stock_rollback_append:
  "stock_rollback plan d (xs @ ys) =
     (case stock_rollback plan d xs of
        (Inl e, p, d') \<Rightarrow> (Inl e, p, d')
      | (Inr u, p, d') \<Rightarrow> stock_rollback p d' ys)"
proof (induction xs arbitrary: plan d)
  case Nil
  then show ?case by simp
next
  case (Cons x xs)
  then show ?case
    by (simp split: prod.splits outcome.splits option.splits sum.splits)
qed

text \<open>
  C4. The stock updates are separate calls with nothing around them. When a backend
  call throws after some lines have been processed, the mutation fails and the database
  is left as those lines made it: their stock updates stay, the other items keep their
  stock and the purchase row is still there. The witness is such a run, in which the
  first item has lost three of its eight boxes and the second none.
\<close>

theorem deletion_keeps_partial_updates:
  assumes "select_purchase_items d pid = processed @ line # remaining"
    and "stock_rollback plan d processed = (Inr (), Throws e # plan', d')"
  shows "deletePurchaseMutation (Ok # plan) d pid = (Inl e, d')
       \<and> purchases d' = purchases d
       \<and> (\<forall>i. i \<notin> item_id ` set processed \<longrightarrow> items d' i = items d i)"
proof -
  have "stock_rollback plan d (processed @ line # remaining) = (Inl e, plan', d')"
    using assms(2) by (simp add: stock_rollback_append)
  then have "deletePurchaseMutation (Ok # plan) d pid = (Inl e, d')"
    using assms(1) by (simp add: deletePurchaseMutation_def)
  moreover have "purchases d' = purchases d"
    using stock_rollback_keeps_purchases [OF assms(2)] by simp
  moreover have "\<forall>i. i \<notin> item_id ` set processed \<longrightarrow> items d' i = items d i"
    using stock_rollback_other_items [OF assms(2)] by simp
  ultimately show ?thesis by simp
qed

theorem deletion_keeps_partial_updates_witness:
  "select_purchase_items example_db ''purchase-1'' = [] @ [strip_line] @ box_line # []
   \<and> stock_rollback [Ok, Ok, Throws (Error ''Failed to fetch'')] example_db [strip_line]
       = (Inr (), [Throws (Error ''Failed to fetch'')], after_first_line)
   \<and> deletePurchaseMutation [Ok, Ok, Ok, Throws (Error ''Failed to fetch'')] example_db ''purchase-1''
       = (Inl (Error ''Failed to fetch''), after_first_line)
   \<and> map_option stock (items example_db ''item-1'') = Some (Some 8)
   \<and> map_option stock (items after_first_line ''item-1'') = Some (Some 3)
   \<and> items after_first_line ''item-2'' = items example_db ''item-2''
   \<and> ''purchase-1'' \<in> purchases after_first_line"
proof -
  have h1: "select_purchase_items example_db ''purchase-1'' = [strip_line] @ box_line # []"
    by (simp add: select_purchase_items_def example_db_def)
  have q: "quantityInBaseUnit strip_line box_item = Inr (Finite 5)"
    by (simp add: quantityInBaseUnit_def js_div_def unit_name_matches_def strip_line_def box_item_def strip_conversion_def)
  have n: "newStock box_item (Finite 5) = Finite 3"
    by (simp add: newStock_def or_zero_def box_item_def)
  have i: "items example_db ''item-1'' = Some box_item" "item_id strip_line = ''item-1''"
    by (simp_all add: example_db_def strip_line_def)
  have h2: "stock_rollback [Ok, Ok, Throws (Error ''Failed to fetch'')] example_db [strip_line]
       = (Inr (), [Throws (Error ''Failed to fetch'')], after_first_line)"
    using q n i by (simp add: after_first_line_def)
  note t = deletion_keeps_partial_updates [OF h1 h2]
  have "map_option stock (items example_db ''item-1'') = Some (Some 8)"
    by (simp add: example_db_def box_item_def)
  moreover have "map_option stock (items after_first_line ''item-1'') = Some (Some 3)"
    by (simp add: after_first_line_def update_stock_def example_db_def box_item_def)
  moreover have "items after_first_line ''item-2'' = items example_db ''item-2''"
    using t by (simp add: strip_line_def)
  moreover have "''purchase-1'' \<in> purchases after_first_line"
    using t by (simp add: example_db_def)
  ultimately show ?thesis using h1 h2 t by simp
qed


section \<open>Properties of the item form\<close>

lemma math_round_nearest:
  "of_int (math_round x) \<le> x + 1 / 2 \<and> x - 1 / 2 < of_int (math_round x)"
proof -
  have "of_int \<lfloor>x + 1 / 2\<rfloor> \<le> x + 1 / 2"
    by (rule of_int_floor_le)
  moreover have "x + 1 / 2 < of_int \<lfloor>x + 1 / 2\<rfloor> + 1"
    by linarith
  ultimately show ?thesis
    by (simp add: math_round_def)
qed

lemma ilog2_bounds:
  assumes "0 < x"
  shows "2 powi (ilog2 x) \<le> x \<and> x < 2 powi (ilog2 x + 1)"
proof (cases "1 \<le> x")
  case True
  define n where "n = \<lfloor>x\<rfloor>"
  define k where "k = nat (bitlen n - 1)"
  have n1: "1 \<le> n"
    using True by (simp add: n_def le_floor_iff)
  have b: "2 ^ nat (bitlen n - 1) \<le> n" "n < 2 ^ nat (bitlen n)"
    using bitlen_bounds [of n] n1 by auto
  have bl: "1 \<le> bitlen n"
    using n1 bitlen_nonneg [of n] b(2) by (cases "bitlen n = 0") auto
  have kk: "bitlen n - 1 = int k" "nat (bitlen n) = Suc k"
    using bl by (simp_all add: k_def)
  have e: "ilog2 x = int k"
    using True kk by (simp add: ilog2_def n_def)
  have lo: "rat_of_int n \<le> x" and hi: "x < rat_of_int n + 1"
    unfolding n_def by linarith+
  have "rat_of_int (2 ^ k) \<le> rat_of_int n"
    using b(1) unfolding k_def by (simp only: of_int_le_iff)
  then have "(2::rat) ^ k \<le> rat_of_int n"
    by (simp only: of_int_power of_int_numeral)
  then have l: "(2::rat) ^ k \<le> x"
    using lo by (rule order_trans)
  have "n + 1 \<le> 2 ^ Suc k"
    using b(2) kk by simp
  then have "rat_of_int (n + 1) \<le> rat_of_int (2 ^ Suc k)"
    by (simp only: of_int_le_iff)
  then have "rat_of_int n + 1 \<le> (2::rat) ^ Suc k"
    by (simp only: of_int_power of_int_numeral of_int_add of_int_1)
  then have h: "x < (2::rat) ^ Suc k"
    using hi by (rule less_le_trans [rotated])
  have "2 powi (int k) = (2::rat) ^ k" "2 powi (int k + 1) = (2::rat) ^ Suc k"
    by (simp_all add: power_int_def nat_add_distrib)
  then show ?thesis
    using l h e by simp
next
  case False
  define y where "y = 1 / x"
  define m where "m = \<lceil>y\<rceil>"
  define j where "j = nat (bitlen (m - 1) - 1)"
  have y1: "1 < y"
    using False assms by (simp add: y_def)
  have m2: "2 \<le> m"
    using y1 unfolding m_def by linarith
  have b: "2 ^ nat (bitlen (m - 1) - 1) \<le> m - 1" "m - 1 < 2 ^ nat (bitlen (m - 1))"
    using bitlen_bounds [of "m - 1"] m2 by auto
  have bl: "1 \<le> bitlen (m - 1)"
    using m2 bitlen_nonneg [of "m - 1"] b(2) by (cases "bitlen (m - 1) = 0") auto
  have jj: "bitlen (m - 1) = int (Suc j)" "nat (bitlen (m - 1)) = Suc j"
    using bl by (simp_all add: j_def)
  have e: "ilog2 x = - int (Suc j)"
    using False jj by (simp add: ilog2_def m_def y_def)
  have up: "y \<le> rat_of_int m" and low: "rat_of_int m - 1 < y"
    unfolding m_def by linarith+
  have "m \<le> 2 ^ Suc j"
    using b(2) jj by simp
  then have "rat_of_int m \<le> rat_of_int (2 ^ Suc j)"
    by (simp only: of_int_le_iff)
  then have "rat_of_int m \<le> (2::rat) ^ Suc j"
    by (simp only: of_int_power of_int_numeral)
  then have "y \<le> (2::rat) ^ Suc j"
    using up by (rule order_trans [rotated])
  then have "1 \<le> x * (2::rat) ^ Suc j"
    using assms by (simp add: y_def field_simps)
  then have l: "1 / (2::rat) ^ Suc j \<le> x"
    by (simp add: field_simps)
  have "rat_of_int (2 ^ j) \<le> rat_of_int (m - 1)"
    using b(1) unfolding j_def by (simp only: of_int_le_iff)
  then have "(2::rat) ^ j \<le> rat_of_int m - 1"
    by (simp only: of_int_power of_int_numeral of_int_diff of_int_1)
  then have "(2::rat) ^ j < y"
    using low by (rule le_less_trans)
  then have "x * (2::rat) ^ j < 1"
    using assms by (simp add: y_def field_simps)
  then have h: "x < 1 / (2::rat) ^ j"
    by (simp add: field_simps)
  have "2 powi (- int (Suc j)) = inverse ((2::rat) ^ Suc j)"
    by (simp only: power_int_minus power_int_of_nat)
  then have p1: "2 powi (- int (Suc j)) = 1 / (2::rat) ^ Suc j"
    by (simp only: inverse_eq_divide)
  have "- int (Suc j) + 1 = - int j"
    by simp
  then have "2 powi (- int (Suc j) + 1) = inverse ((2::rat) ^ j)"
    by (simp only: power_int_minus power_int_of_nat)
  then have p2: "2 powi (- int (Suc j) + 1) = 1 / (2::rat) ^ j"
    by (simp only: inverse_eq_divide)
  show ?thesis
    unfolding e p1 p2 using l h by simp
qed

lemma round_half_even_nearest:
  "\<bar>of_int (round_half_even y) - y\<bar> \<le> 1 / 2"
proof -
  have "of_int \<lfloor>y\<rfloor> \<le> y" "y < of_int \<lfloor>y\<rfloor> + 1"
    by linarith+
  then show ?thesis
    by (auto simp: round_half_even_def Let_def)
qed

lemma ilog2_ge_iff:
  assumes "0 < x"
  shows "k \<le> ilog2 x \<longleftrightarrow> 2 powi k \<le> x"
proof
  assume "k \<le> ilog2 x"
  then have "(2::rat) powi k \<le> 2 powi (ilog2 x)"
    by (rule power_int_increasing) simp
  then show "2 powi k \<le> x"
    using ilog2_bounds [OF assms] by linarith
next
  assume a: "2 powi k \<le> x"
  show "k \<le> ilog2 x"
  proof (rule ccontr)
    assume "\<not> k \<le> ilog2 x"
    then have "ilog2 x + 1 \<le> k"
      by simp
    then have "(2::rat) powi (ilog2 x + 1) \<le> 2 powi k"
      by (rule power_int_increasing) simp
    then show False
      using a ilog2_bounds [OF assms] by linarith
  qed
qed

lemma to_double_half_ulp:
  assumes "to_double x = Finite y"
  shows "\<bar>y - x\<bar> \<le> 2 powi (max (ilog2 \<bar>x\<bar> - 52) (- 1074)) / 2"
proof (cases "x = 0")
  case True
  then show ?thesis
    using assms by (simp add: to_double_def)
next
  case False
  define e where "e = max (ilog2 \<bar>x\<bar> - 52) (- 1074)"
  have p: "0 < (2::rat) powi e"
    by simp
  have y: "y = of_int (round_half_even (x / 2 powi e)) * 2 powi e"
    using assms False by (simp add: to_double_def Let_def e_def split: if_splits)
  have a: "\<bar>of_int (round_half_even (x / 2 powi e)) - x / 2 powi e\<bar> * 2 powi e \<le> 1 / 2 * 2 powi e"
    using round_half_even_nearest [of "x / 2 powi e"] p by (intro mult_right_mono) simp_all
  have b: "\<bar>of_int (round_half_even (x / 2 powi e)) - x / 2 powi e\<bar> * 2 powi e
                   = \<bar>y - x\<bar>"
  proof -
    have "y - x = (of_int (round_half_even (x / 2 powi e)) - x / 2 powi e) * 2 powi e"
      using p by (simp add: y field_simps)
    then show ?thesis
      using p by (simp add: abs_mult)
  qed
  have "\<bar>y - x\<bar> \<le> 1 / 2 * 2 powi e"
    using a unfolding b .
  then have "\<bar>y - x\<bar> \<le> 2 powi e / 2"
    by simp
  then show ?thesis
    unfolding e_def .
qed

lemma to_double_relative:
  assumes "to_double x = Finite y" and "2 powi (- 1022) \<le> \<bar>x\<bar>"
  shows "\<bar>y - x\<bar> \<le> \<bar>x\<bar> / 2 ^ 53"
proof -
  have pos: "0 < \<bar>x\<bar>"
    using assms(2) zero_less_power_int [of "2::rat" "- 1022"] by linarith
  have "- 1022 \<le> ilog2 \<bar>x\<bar>"
    using assms(2) ilog2_ge_iff [OF pos] by simp
  then have e: "max (ilog2 \<bar>x\<bar> - 52) (- 1074) = ilog2 \<bar>x\<bar> - 52"
    by simp
  have "(2::rat) powi (ilog2 \<bar>x\<bar> - 52) = 2 powi (ilog2 \<bar>x\<bar>) / 2 powi 52"
    by (rule power_int_diff) simp
  then have "(2::rat) powi (ilog2 \<bar>x\<bar> - 52) / 2 = 2 powi (ilog2 \<bar>x\<bar>) / 2 ^ 53"
    by (simp add: power_int_def)
  also have "\<dots> \<le> \<bar>x\<bar> / 2 ^ 53"
    using ilog2_bounds [OF pos] by (simp add: divide_right_mono)
  finally show ?thesis
    using to_double_half_ulp [OF assms(1)] e by simp
qed

text \<open>
  C5. For every margin, \<^verbatim>\<open>calculateSellPriceFromMargin\<close> returns
  \<^verbatim>\<open>Math.round(base_price * (1 + margin / 100))\<close> when the base price is positive and 0
  when it is zero or negative. The arithmetic is the machine's: the quotient, the sum and
  the product are each the nearest double, the product lying within half a unit in the
  last place of the exact product of its factors, and the result is the integer nearest
  to that double product, a tie going up. The double product need not be the exact one:
  at a base price of 50 and a margin of 15 it falls just short of 57.5, and the function
  returns 57.
\<close>

theorem sell_price_from_margin:
  "(0 < FormData.base_price fd \<longrightarrow>
      calculateSellPriceFromMargin fd margin
        = math_round_num
            (double_mul (Finite (FormData.base_price fd))
               (double_add (Finite 1) (double_div margin (Finite 100)))))
   \<and> (\<forall>s p. 0 < FormData.base_price fd \<longrightarrow>
          double_add (Finite 1) (double_div margin (Finite 100)) = Finite s \<longrightarrow>
          double_mul (Finite (FormData.base_price fd)) (Finite s) = Finite p \<longrightarrow>
          calculateSellPriceFromMargin fd margin = Finite (of_int (math_round p))
          \<and> of_int (math_round p) \<le> p + 1 / 2
          \<and> p - 1 / 2 < of_int (math_round p)
          \<and> \<bar>p - FormData.base_price fd * s\<bar>
               \<le> 2 powi (max (ilog2 \<bar>FormData.base_price fd * s\<bar> - 52) (- 1074)) / 2)
   \<and> (FormData.base_price fd \<le> 0 \<longrightarrow> calculateSellPriceFromMargin fd margin = Finite 0)"
proof -
  have a: "calculateSellPriceFromMargin fd margin
        = math_round_num
            (double_mul (Finite (FormData.base_price fd))
               (double_add (Finite 1) (double_div margin (Finite 100))))"
    if "0 < FormData.base_price fd"
    using that by (simp add: calculateSellPriceFromMargin_def)
  have b: "calculateSellPriceFromMargin fd margin = Finite (of_int (math_round p))
          \<and> of_int (math_round p) \<le> p + 1 / 2
          \<and> p - 1 / 2 < of_int (math_round p)
          \<and> \<bar>p - FormData.base_price fd * s\<bar>
               \<le> 2 powi (max (ilog2 \<bar>FormData.base_price fd * s\<bar> - 52) (- 1074)) / 2"
    if "0 < FormData.base_price fd"
      and "double_add (Finite 1) (double_div margin (Finite 100)) = Finite s"
      and "double_mul (Finite (FormData.base_price fd)) (Finite s) = Finite p" for s p
  proof -
    have "to_double (FormData.base_price fd * s) = Finite p"
      using that(3) by (simp add: double_mul_def)
    then have "\<bar>p - FormData.base_price fd * s\<bar>
               \<le> 2 powi (max (ilog2 \<bar>FormData.base_price fd * s\<bar> - 52) (- 1074)) / 2"
      by (rule to_double_half_ulp)
    moreover have "calculateSellPriceFromMargin fd margin = Finite (of_int (math_round p))"
      using a [OF that(1)] that(2,3) by simp
    ultimately show ?thesis
      using math_round_nearest [of p] by simp
  qed
  have c: "calculateSellPriceFromMargin fd margin = Finite 0"
    if "FormData.base_price fd \<le> 0"
    using that by (simp add: calculateSellPriceFromMargin_def)
  show ?thesis
    using a b c by blast
qed

theorem sell_price_from_margin_witness:
  "calculateSellPriceFromMargin example_form (Finite 25) = Finite 1250
   \<and> calculateSellPriceFromMargin (example_form\<lparr>FormData.base_price := 50\<rparr>) (Finite 15)
       = Finite 57
   \<and> calculateSellPriceFromMargin (example_form\<lparr>FormData.base_price := 5\<rparr>) (Finite 10)
       = Finite 6
   \<and> calculateSellPriceFromMargin (example_form\<lparr>FormData.base_price := 0\<rparr>) (Finite 25)
       = Finite 0
   \<and> calculateSellPriceFromMargin (example_form\<lparr>FormData.base_price := - 3\<rparr>) (Finite 25)
       = Finite 0
   \<and> calculateSellPriceFromMargin example_form NaN = NaN"
proof -
  have b: "FormData.base_price example_form = 1000"
    by (simp add: example_form_def)
  have e1: "math_round_num
              (double_mul (Finite 1000) (double_add (Finite 1) (double_div (Finite 25) (Finite 100))))
            = Finite 1250"
    by code_simp
  have e2: "math_round_num
              (double_mul (Finite 50) (double_add (Finite 1) (double_div (Finite 15) (Finite 100))))
            = Finite 57"
    by code_simp
  have e3: "math_round_num
              (double_mul (Finite 5) (double_add (Finite 1) (double_div (Finite 10) (Finite 100))))
            = Finite 6"
    by code_simp
  have e4: "math_round_num
              (double_mul (Finite 1000) (double_add (Finite 1) (double_div NaN (Finite 100))))
            = NaN"
    by code_simp
  have a1: "calculateSellPriceFromMargin example_form (Finite 25) = Finite 1250"
    using sell_price_from_margin [of example_form "Finite 25"] b e1 by simp
  have a2: "calculateSellPriceFromMargin (example_form\<lparr>FormData.base_price := 50\<rparr>) (Finite 15)
              = Finite 57"
    using sell_price_from_margin [of "example_form\<lparr>FormData.base_price := 50\<rparr>" "Finite 15"] e2
    by simp
  have a3: "calculateSellPriceFromMargin (example_form\<lparr>FormData.base_price := 5\<rparr>) (Finite 10)
              = Finite 6"
    using sell_price_from_margin [of "example_form\<lparr>FormData.base_price := 5\<rparr>" "Finite 10"] e3
    by simp
  have a4: "calculateSellPriceFromMargin (example_form\<lparr>FormData.base_price := 0\<rparr>) (Finite 25)
              = Finite 0"
    using sell_price_from_margin [of "example_form\<lparr>FormData.base_price := 0\<rparr>" "Finite 25"]
    by simp
  have a5: "calculateSellPriceFromMargin (example_form\<lparr>FormData.base_price := - 3\<rparr>) (Finite 25)
              = Finite 0"
    using sell_price_from_margin [of "example_form\<lparr>FormData.base_price := - 3\<rparr>" "Finite 25"]
    by simp
  have a6: "calculateSellPriceFromMargin example_form NaN = NaN"
    using sell_price_from_margin [of example_form NaN] b e4 by simp
  show ?thesis
    using a1 a2 a3 a4 a5 a6 by simp
qed

text \<open>
  C10. In the branch of \<^verbatim>\<open>handleSubmit\<close> that creates an item, the row inserted has
  stock 0 whatever the form holds: the payload sets it, a successful submit stores that
  payload under the new id, and no run of the handler in that mode brings a row with
  another stock into the table.
\<close>

theorem new_item_has_zero_stock:
  assumes "\<not> isEditMode st"
  shows "stock (mainItemData st) = Some 0
       \<and> handleSubmit Ok new_id True st d
           = (Inr (), st\<lparr>saving := False\<rparr>, insert_item d new_id (mainItemData st),
              SetSaving True # BackendCall ''items'' ''insert'' # after_save st @ [SetSaving False])
       \<and> map_option stock (items (insert_item d new_id (mainItemData st)) new_id) = Some (Some 0)
       \<and> (\<forall>res ins k row.
             items (fst (snd (snd (handleSubmit res new_id ins st d)))) k = Some row \<longrightarrow>
             items d k \<noteq> Some row \<longrightarrow> stock row = Some 0)"
proof -
  have a: "stock (mainItemData st) = Some 0"
    by (simp add: mainItemData_def)
  have b: "handleSubmit Ok new_id True st d
           = (Inr (), st\<lparr>saving := False\<rparr>, insert_item d new_id (mainItemData st),
              SetSaving True # BackendCall ''items'' ''insert'' # after_save st @ [SetSaving False])"
    using assms by (simp add: handleSubmit_def handleSubmit_try_def)
  have c: "map_option stock (items (insert_item d new_id (mainItemData st)) new_id) = Some (Some 0)"
    using a by (simp add: insert_item_def)
  have d: "stock row = Some 0"
    if "items (fst (snd (snd (handleSubmit res new_id ins st d)))) k = Some row"
      and "items d k \<noteq> Some row" for res ins k row
    using that assms a
    by (cases res; cases ins)
       (auto simp: handleSubmit_def handleSubmit_try_def insert_item_def split: if_splits)
  show ?thesis using a b c d by blast
qed

theorem new_item_has_zero_stock_witness:
  "\<not> isEditMode new_item_form
   \<and> map_option stock
        (items (fst (snd (snd (handleSubmit Ok ''item-9'' True new_item_form empty_db)))) ''item-9'')
      = Some (Some 0)
   \<and> map_option stock
        (items (fst (snd (snd (handleSubmit Ok ''item-9'' True
            (new_item_form\<lparr>formData := example_form\<lparr>FormData.min_stock := 50\<rparr>\<rparr>) empty_db)))) ''item-9'')
      = Some (Some 0)"
proof -
  have h: "\<not> isEditMode new_item_form"
    by (simp add: new_item_form_def)
  have h': "\<not> isEditMode (new_item_form\<lparr>formData := example_form\<lparr>FormData.min_stock := 50\<rparr>\<rparr>)"
    by (simp add: new_item_form_def)
  show ?thesis
    using new_item_has_zero_stock [OF h, of "''item-9''" empty_db]
      new_item_has_zero_stock [OF h', of "''item-9''" empty_db] h
    by simp
qed









section \<open>Properties of the master data handler\<close>

text \<open>
  C9. A firing debounce timer and a change of the page size both leave the current page
  at 1; and whatever the hook does in one step, if the debounced search term or the page
  size differs afterwards, the query of the new state asks for page 1.
\<close>

theorem changed_query_starts_at_first_page:
  "currentPage (list_step DebounceTimer s) = 1
   \<and> debouncedSearch (list_step DebounceTimer s) = search s
   \<and> currentPage (list_step (HandleItemsPerPageChange v) s) = 1
   \<and> itemsPerPage (list_step (HandleItemsPerPageChange v) s) = v
   \<and> (debouncedSearch (list_step a s) \<noteq> debouncedSearch s
        \<or> itemsPerPage (list_step a s) \<noteq> itemsPerPage s
       \<longrightarrow> fst (query_args (list_step a s)) = 1)"
  by (cases a) (simp_all add: query_args_def)

theorem changed_query_starts_at_first_page_witness:
  "debouncedSearch (list_step DebounceTimer third_page) \<noteq> debouncedSearch third_page
   \<and> query_args (list_step DebounceTimer third_page) = (1, ''para'', 10)
   \<and> itemsPerPage (list_step (HandleItemsPerPageChange 20) third_page) \<noteq> itemsPerPage third_page
   \<and> query_args (list_step (HandleItemsPerPageChange 20) third_page) = (1, [], 20)"
proof -
  have h1: "debouncedSearch (list_step DebounceTimer third_page) \<noteq> debouncedSearch third_page"
    by (simp add: third_page_def)
  have h2: "itemsPerPage (list_step (HandleItemsPerPageChange 20) third_page)
              \<noteq> itemsPerPage third_page"
    by (simp add: third_page_def)
  have "fst (query_args (list_step DebounceTimer third_page)) = 1"
    using changed_query_starts_at_first_page [of third_page 20 DebounceTimer] h1 by simp
  moreover have "fst (query_args (list_step (HandleItemsPerPageChange 20) third_page)) = 1"
    using changed_query_starts_at_first_page [of third_page 20 "HandleItemsPerPageChange 20"] h2
    by simp
  moreover have "snd (query_args (list_step DebounceTimer third_page)) = (''para'', 10)"
    by (simp add: query_args_def third_page_def)
  moreover have "snd (query_args (list_step (HandleItemsPerPageChange 20) third_page)) = ([], 20)"
    by (simp add: query_args_def third_page_def)
  ultimately show ?thesis using h1 h2 by (simp add: prod_eq_iff)
qed

lemma take_drop_nth:
  "take k (drop j xs) = map (\<lambda>i. xs ! i) [j ..< min (length xs) (j + k)]"
  by (rule nth_equalityI) auto

lemma ceiling_pages:
  assumes "1 \<le> (n::int)"
  shows "(\<lceil>rat_of_nat t / rat_of_int n\<rceil> - 1) * n < int t
       \<and> int t \<le> \<lceil>rat_of_nat t / rat_of_int n\<rceil> * n"
proof -
  let ?k = "\<lceil>rat_of_nat t / rat_of_int n\<rceil>"
  have n: "0 < rat_of_int n"
    using assms by simp
  have "rat_of_nat t / rat_of_int n \<le> of_int ?k"
    by (rule le_of_int_ceiling)
  then have "rat_of_nat t \<le> of_int ?k * rat_of_int n"
    using pos_divide_le_eq [OF n, of "rat_of_nat t" "of_int ?k"] by blast
  then have "rat_of_int (int t) \<le> rat_of_int (?k * n)"
    by simp
  then have a: "int t \<le> ?k * n"
    by (simp only: of_int_le_iff)
  have "of_int ?k - 1 < rat_of_nat t / rat_of_int n"
    by linarith
  then have "(of_int ?k - 1) * rat_of_int n < rat_of_nat t"
    using pos_less_divide_eq [OF n, of "of_int ?k - 1" "rat_of_nat t"] by blast
  then have "rat_of_int ((?k - 1) * n) < rat_of_int (int t)"
    by simp
  then have b: "(?k - 1) * n < int t"
    by (simp only: of_int_less_iff)
  show ?thesis using a b by simp
qed

text \<open>
  C6. For a page number and a page size of at least 1, with every call succeeding, the
  fetch asks for the rows at positions \<open>(p - 1) * n\<close> to \<open>(p - 1) * n + n - 1\<close>, both
  included, gets exactly the rows the selection has at those positions, at most \<open>n\<close> of
  them, and reports the number of matching rows as the total; the number of pages is the
  ceiling of the total over the page size, so that many pages hold every row and one
  fewer would not. The same holds for the purchase list.
\<close>

theorem page_window:
  assumes "1 \<le> p" and "1 \<le> n"
  shows "range_rows rows ((p - 1) * n) ((p - 1) * n + n - 1)
           = map (\<lambda>i. rows ! i) [nat ((p - 1) * n) ..< min (length rows) (nat ((p - 1) * n) + nat n)]
       \<and> length (range_rows rows ((p - 1) * n) ((p - 1) * n + n - 1)) \<le> nat n
       \<and> (tableName \<noteq> ''items'' \<longrightarrow>
            fetchData tableName f [] rows p n
              = Inr (range_rows rows ((p - 1) * n) ((p - 1) * n + n - 1), length rows))
       \<and> fetchData ''items'' f [] rows p n
           = Inr (map f (range_rows rows ((p - 1) * n) ((p - 1) * n + n - 1)), length rows)
       \<and> fetchPurchases f [] rows p n
           = Inr (map f (range_rows rows ((p - 1) * n) ((p - 1) * n + n - 1)), length rows)
       \<and> totalPages (length rows) n
           = Finite (of_int \<lceil>rat_of_nat (length rows) / rat_of_int n\<rceil>)
       \<and> (\<lceil>rat_of_nat (length rows) / rat_of_int n\<rceil> - 1) * n < int (length rows)
       \<and> int (length rows) \<le> \<lceil>rat_of_nat (length rows) / rat_of_int n\<rceil> * n"
proof -
  have w: "range_rows rows ((p - 1) * n) ((p - 1) * n + n - 1)
             = take (nat n) (drop (nat ((p - 1) * n)) rows)"
    by (simp add: range_rows_def)
  have a: "range_rows rows ((p - 1) * n) ((p - 1) * n + n - 1)
           = map (\<lambda>i. rows ! i) [nat ((p - 1) * n) ..< min (length rows) (nat ((p - 1) * n) + nat n)]"
    unfolding w by (rule take_drop_nth)
  have b: "length (range_rows rows ((p - 1) * n) ((p - 1) * n + n - 1)) \<le> nat n"
    unfolding w by simp
  have c: "fetchData tableName f [] rows p n
              = Inr (range_rows rows ((p - 1) * n) ((p - 1) * n + n - 1), length rows)"
    if "tableName \<noteq> ''items''"
    using that by (simp add: fetchData_def Let_def)
  have d: "fetchData ''items'' f [] rows p n
           = Inr (map f (range_rows rows ((p - 1) * n) ((p - 1) * n + n - 1)), length rows)"
    by (simp add: fetchData_def Let_def)
  have e: "fetchPurchases f [] rows p n
           = Inr (map f (range_rows rows ((p - 1) * n) ((p - 1) * n + n - 1)), length rows)"
    by (simp add: fetchPurchases_def Let_def)
  have g: "totalPages (length rows) n
           = Finite (of_int \<lceil>rat_of_nat (length rows) / rat_of_int n\<rceil>)"
    using assms(2) by (simp add: totalPages_def js_div_def)
  show ?thesis using a b c d e g ceiling_pages [OF assms(2), of "length rows"] by blast
qed

theorem page_window_witness:
  "(1::int) \<le> 2 \<and> (1::int) \<le> 3
   \<and> fetchData ''item_categories'' (\<lambda>r. r) [] seven_rows 2 3 = Inr ([''d'', ''e'', ''f''], 7)
   \<and> fetchData ''item_categories'' (\<lambda>r. r) [] seven_rows 3 3 = Inr ([''g''], 7)
   \<and> fetchPurchases (\<lambda>r. r) [] seven_rows 1 3 = Inr ([''a'', ''b'', ''c''], 7)
   \<and> totalPages 7 3 = Finite 3"
proof -
  have h1: "(1::int) \<le> 1" and h2: "(1::int) \<le> 2" and h3: "(1::int) \<le> 3"
    by simp_all
  have ne: "''item_categories'' \<noteq> ''items''"
    by simp
  have len: "length seven_rows = 7"
    by (simp add: seven_rows_def)
  have r1: "range_rows seven_rows ((1 - 1) * 3) ((1 - 1) * 3 + 3 - 1) = [''a'', ''b'', ''c'']"
    and r2: "range_rows seven_rows ((2 - 1) * 3) ((2 - 1) * 3 + 3 - 1) = [''d'', ''e'', ''f'']"
    and r3: "range_rows seven_rows ((3 - 1) * 3) ((3 - 1) * 3 + 3 - 1) = [''g'']"
    by (simp_all add: range_rows_def seven_rows_def)
  note t1 = page_window [OF h1 h3, of seven_rows "''item_categories''" "\<lambda>r. r"]
  note t2 = page_window [OF h2 h3, of seven_rows "''item_categories''" "\<lambda>r. r"]
  note t3 = page_window [OF h3 h3, of seven_rows "''item_categories''" "\<lambda>r. r"]
  have a: "fetchData ''item_categories'' (\<lambda>r. r) [] seven_rows 2 3 = Inr ([''d'', ''e'', ''f''], 7)"
    using t2 ne unfolding r2 len by blast
  have b: "fetchData ''item_categories'' (\<lambda>r. r) [] seven_rows 3 3 = Inr ([''g''], 7)"
    using t3 ne unfolding r3 len by blast
  have "fetchPurchases (\<lambda>r. r) [] seven_rows 1 3
          = Inr (map (\<lambda>r. r) [''a'', ''b'', ''c''], 7)"
    using t1 unfolding r1 len by blast
  then have c: "fetchPurchases (\<lambda>r. r) [] seven_rows 1 3 = Inr ([''a'', ''b'', ''c''], 7)"
    by simp
  have "totalPages 7 3 = Finite (of_int \<lceil>rat_of_nat 7 / rat_of_int 3\<rceil>)"
    using t2 unfolding len by blast
  then have d: "totalPages 7 3 = Finite 3"
    by (simp add: ceiling_eq_iff)
  show ?thesis using a b c d by simp
qed

text \<open>
  C7, as the code has it. When the backend call of a mutation fails (it returns an error
  or its promise rejects), the call has been made once and one alert with the localised
  message is shown. Run through \<^verbatim>\<open>mutate\<close>, the mutation ends there and nothing is
  raised; the item save likewise alerts once and returns normally, with the saving flag
  reset. \<^verbatim>\<open>handleModalSubmit\<close>, which awaits \<^verbatim>\<open>mutateAsync\<close>, shows the alert and then
  raises the error to its caller.
\<close>

theorem backend_error_alerts_once:
  assumes "res = ErrorResult e \<or> res = Throws e"
  shows "mutate (addMutation t l) res
           = (Inr (), [BackendCall t ''insert'',
                       Alert (''Gagal menambahkan '' @ l @ '': '' @ message e)])
       \<and> mutate (updateMutation t l) res
           = (Inr (), [BackendCall t ''update'',
                       Alert (''Gagal memperbarui '' @ l @ '': '' @ message e)])
       \<and> mutate (deleteMutation t l) res
           = (Inr (), [BackendCall t ''delete'',
                       Alert (''Gagal menghapus '' @ l @ '': '' @ message e)])
       \<and> handleSubmit res new_id ins st d
           = (Inr (), st\<lparr>saving := False\<rparr>, d,
              [SetSaving True,
               BackendCall ''items'' (if isEditMode st then ''update'' else ''insert''),
               ConsoleError ''Error saving item:'',
               Alert ''Gagal menyimpan data item. Silakan coba lagi.'',
               SetSaving False])
       \<and> fst (handleModalSubmit t l i res) = Inl e
       \<and> length (filter is_alert (snd (handleModalSubmit t l i res))) = 1
       \<and> length (filter is_backend_call (snd (handleModalSubmit t l i res))) = 1"
proof -
  have w: "backend_write t operation res = (Inl e, [BackendCall t operation])" for t operation
    using assms by (auto simp: backend_write_def)
  have a: "mutate (addMutation t l) res
           = (Inr (), [BackendCall t ''insert'',
                       Alert (''Gagal menambahkan '' @ l @ '': '' @ message e)])"
    by (simp add: mutate_def mutateAsync_def addMutation_def w)
  have b: "mutate (updateMutation t l) res
           = (Inr (), [BackendCall t ''update'',
                       Alert (''Gagal memperbarui '' @ l @ '': '' @ message e)])"
    by (simp add: mutate_def mutateAsync_def updateMutation_def w)
  have c: "mutate (deleteMutation t l) res
           = (Inr (), [BackendCall t ''delete'',
                       Alert (''Gagal menghapus '' @ l @ '': '' @ message e)])"
    by (simp add: mutate_def mutateAsync_def deleteMutation_def w)
  have s: "handleSubmit res new_id ins st d
           = (Inr (), st\<lparr>saving := False\<rparr>, d,
              [SetSaving True,
               BackendCall ''items'' (if isEditMode st then ''update'' else ''insert''),
               ConsoleError ''Error saving item:'',
               Alert ''Gagal menyimpan data item. Silakan coba lagi.'',
               SetSaving False])"
    using assms by (auto simp: handleSubmit_def handleSubmit_try_def)
  have m: "handleModalSubmit t l i res
             = (Inl e, [BackendCall t (if i \<noteq> None \<and> i \<noteq> Some [] then ''update'' else ''insert''),
                        Alert ((if i \<noteq> None \<and> i \<noteq> Some [] then ''Gagal memperbarui ''
                                else ''Gagal menambahkan '') @ l @ '': '' @ message e)])"
    by (simp add: handleModalSubmit_def mutateAsync_def addMutation_def updateMutation_def w)
  show ?thesis
    unfolding m using a b c s by simp
qed

theorem backend_error_alerts_once_witness:
  "mutate (deleteMutation ''item_categories'' ''Kategori'') (ErrorResult category_error)
     = (Inr (), [BackendCall ''item_categories'' ''delete'',
                 Alert ''Gagal menghapus Kategori: duplicate key value''])
   \<and> fst (handleSubmit (Throws category_error) ''item-9'' True new_item_form empty_db) = Inr ()
   \<and> filter is_alert
        (snd (snd (snd (handleSubmit (Throws category_error) ''item-9'' True new_item_form empty_db))))
       = [Alert ''Gagal menyimpan data item. Silakan coba lagi.'']
   \<and> fst (handleModalSubmit ''item_categories'' ''Kategori'' (Some ''cat-1'')
            (ErrorResult category_error)) = Inl category_error"
proof -
  have h1: "ErrorResult category_error = ErrorResult category_error
            \<or> ErrorResult category_error = Throws category_error"
    by simp
  have h2: "Throws category_error = ErrorResult category_error
            \<or> Throws category_error = Throws category_error"
    by simp
  note t1 = backend_error_alerts_once [OF h1, of "''item_categories''" "''Kategori''"
      "''item-9''" True new_item_form empty_db "Some ''cat-1''"]
  note t2 = backend_error_alerts_once [OF h2, of "''item_categories''" "''Kategori''"
      "''item-9''" True new_item_form empty_db "Some ''cat-1''"]
  show ?thesis
    using t1 t2 by (simp add: category_error_def)
qed

text \<open>
  C7 as it was stated has every handler return normally after the alert. Adding a
  category through \<^verbatim>\<open>handleModalSubmit\<close> with a failing insert ends with the error
  raised.
\<close>

theorem modal_submit_propagates_error:
  "handleModalSubmit ''item_categories'' ''Kategori'' None (ErrorResult category_error)
     = (Inl category_error,
        [BackendCall ''item_categories'' ''insert'',
         Alert ''Gagal menambahkan Kategori: duplicate key value''])
   \<and> fst (handleModalSubmit ''item_categories'' ''Kategori'' None (ErrorResult category_error))
       \<noteq> Inr ()"
  by (simp add: handleModalSubmit_def mutateAsync_def addMutation_def backend_write_def
      category_error_def)


end
